theory Spec2Isabelle
  imports Complex_Main
begin

section \<open>Values of the source language\<close>

text \<open>
  The extension is TypeScript. A \<^verbatim>\<open>number\<close> is modelled as a real: the deck id a
  caller hands to the tool is whatever number the calling assistant wrote, so fractions
  are in the type; comparison and equality are those of the reals. A string is a list
  of characters below 256.
\<close>

type_synonym number = real

text \<open>
  \<^verbatim>\<open>String.prototype.trim\<close> drops white space and line terminators from both ends.
  On characters below 256 these are tab, line feed, vertical tab, form feed, carriage
  return, space and the no-break space.
\<close>

definition isWhiteSpace :: "char \<Rightarrow> bool" where
  "isWhiteSpace c \<longleftrightarrow>
     c = CHR 0x09 \<or> c = CHR 0x0A \<or> c = CHR 0x0B \<or> c = CHR 0x0C \<or>
     c = CHR 0x0D \<or> c = CHR 0x20 \<or> c = CHR 0xA0"

definition trim :: "string \<Rightarrow> string" where
  "trim s = rev (dropWhile isWhiteSpace (rev (dropWhile isWhiteSpace s)))"

text \<open>\<^verbatim>\<open>s.split(",")\<close>: the pieces between commas, empty pieces kept.\<close>

fun splitComma :: "string \<Rightarrow> string list" where
  "splitComma [] = [[]]"
| "splitComma (c # cs) =
     (if c = CHR '','' then [] # splitComma cs
      else (case splitComma cs of
              [] \<Rightarrow> [[c]]
            | w # ws \<Rightarrow> (c # w) # ws))"

section \<open>Storage of deck configurations\<close>

datatype noteType = Basic | BasicAndReversed

fun noteTypeName :: "noteType \<Rightarrow> string" where
  "noteTypeName Basic = ''Basic''"
| "noteTypeName BasicAndReversed = ''Basic (and reversed card)''"

record deckConfiguration =
  deckId :: number
  deckName :: string
  purpose :: string
  noteType :: noteType
  frontTemplate :: string
  backTemplate :: string
  frontExample :: string
  backExample :: string

text \<open>
  The slot \<^verbatim>\<open>"deck-configurations"\<close> of the local storage is either absent or holds
  the JSON text of a list of configurations. The text is written by
  \<^verbatim>\<open>JSON.stringify\<close> and read back by \<^verbatim>\<open>JSON.parse\<close> only, so the slot is
  modelled by the list it encodes.
\<close>

type_synonym localStorage = "deckConfiguration list option"

definition getDeckConfigurations :: "localStorage \<Rightarrow> deckConfiguration list" where
  "getDeckConfigurations st = (case st of None \<Rightarrow> [] | Some configurations \<Rightarrow> configurations)"

definition saveDeckConfigurations :: "deckConfiguration list \<Rightarrow> localStorage" where
  "saveDeckConfigurations configurations = Some configurations"

definition addDeckConfiguration :: "deckConfiguration \<Rightarrow> localStorage \<Rightarrow> localStorage" where
  "addDeckConfiguration configuration st =
     (let configurations = getDeckConfigurations st;
          filtered = filter (\<lambda>c. deckId c \<noteq> deckId configuration) configurations
      in saveDeckConfigurations (filtered @ [configuration]))"

definition removeDeckConfiguration :: "number \<Rightarrow> localStorage \<Rightarrow> localStorage" where
  "removeDeckConfiguration d st =
     (let configurations = getDeckConfigurations st;
          filtered = filter (\<lambda>c. deckId c \<noteq> d) configurations
      in saveDeckConfigurations filtered)"

definition isDeckConfigured :: "number \<Rightarrow> localStorage \<Rightarrow> bool" where
  "isDeckConfigured d st = list_ex (\<lambda>c. deckId c = d) (getDeckConfigurations st)"

text \<open>The invariant of the stored set: no two configurations carry the same deck id.\<close>

definition onePerDeckId :: "localStorage \<Rightarrow> bool" where
  "onePerDeckId st = distinct (map deckId (getDeckConfigurations st))"

text \<open>The two operations by which the configuration command changes the store.\<close>

datatype storageOp = Add deckConfiguration | Remove number

fun applyOp :: "localStorage \<Rightarrow> storageOp \<Rightarrow> localStorage" where
  "applyOp st (Add configuration) = addDeckConfiguration configuration st"
| "applyOp st (Remove d) = removeDeckConfiguration d st"

section \<open>The AnkiConnect client\<close>

record 'a ankiConnectResponse =
  result :: "'a option"
  error :: "string option"

text \<open>
  What one \<^verbatim>\<open>fetch\<close> to the connector can come to: the promise rejects, the
  status is not a success, the body is not JSON, or the body parses to a response
  object. A thrown \<^verbatim>\<open>Error\<close> is represented by its message.
\<close>

datatype 'a httpExchange =
    NetworkFailure string
  | HttpError string
  | InvalidJson string
  | Parsed "'a ankiConnectResponse"

text \<open>
  Everything thrown here is an \<^verbatim>\<open>Error\<close> (or a subclass), so the tool's
  \<^verbatim>\<open>error instanceof Error ? error.message : "Unknown error"\<close> always takes the message.
\<close>

datatype exn = Error string

text \<open>
  One request per action the tools use; \<^verbatim>\<open>AddNote\<close> carries deck name, model name,
  fields, tags and the \<^verbatim>\<open>allowDuplicate\<close> option.
\<close>

datatype request =
    Version
  | FindNotes string
  | NotesInfo "number list"
  | AddNote string string "(string \<times> string) list" "string list" bool
  | UpdateNoteFields number "(string \<times> string) list"

text \<open>
  The checks of \<^verbatim>\<open>invokeAnkiConnect\<close> on what came back. \<^verbatim>\<open>if (data.error)\<close>
  tests truthiness: \<^verbatim>\<open>null\<close> and the empty string both pass it by.
\<close>

definition truthy :: "string option \<Rightarrow> bool" where
  "truthy v = (case v of None \<Rightarrow> False | Some s \<Rightarrow> s \<noteq> [])"

fun receive :: "'a httpExchange \<Rightarrow> exn + 'a" where
  "receive (NetworkFailure m) = Inl (Error m)"
| "receive (HttpError statusText) = Inl (Error (''AnkiConnect request failed: '' @ statusText))"
| "receive (InvalidJson m) = Inl (Error m)"
| "receive (Parsed data) =
     (if truthy (error data) then Inl (Error (the (error data)))
      else (case result data of
              None \<Rightarrow> Inl (Error ''AnkiConnect returned null result'')
            | Some r \<Rightarrow> Inr r))"

text \<open>
  \<^verbatim>\<open>invokeAnkiConnect\<close> sends the request, which the model appends to the log of
  requests sent so far, and checks the exchange.
\<close>

definition invokeAnkiConnect ::
  "request \<Rightarrow> 'a httpExchange \<Rightarrow> request list \<Rightarrow> (exn + 'a) \<times> request list" where
  "invokeAnkiConnect req exchange sent = (receive exchange, sent @ [req])"

datatype noteField = NoteField (fieldValue: string) (fieldOrder: number)

text \<open>
  A note in the answer to \<^verbatim>\<open>notesInfo\<close>. For an id it cannot load AnkiConnect answers
  with the empty object \<^verbatim>\<open>{}\<close>, which the client's type assertion lets through: such a
  note has no \<^verbatim>\<open>fields\<close>.
\<close>

datatype noteInfo =
    EmptyNote
  | Note (noteId: number) (modelName: string) (noteTags: "string list")
      (noteFields: "(string \<times> noteField) list")

text \<open>
  The peer: what comes of each request. A run of the tool sends each action at most
  once, so a function from the request's parameters to the exchange covers every
  behaviour of the peer over one run. The results have the types the client asserts
  with \<^verbatim>\<open>as AnkiConnectResponse<T>\<close>.
\<close>

record ankiPeer =
  versionReply :: "number httpExchange"
  findNotesReply :: "string \<Rightarrow> number list httpExchange"
  notesInfoReply :: "number list \<Rightarrow> noteInfo list httpExchange"
  addNoteReply ::
    "string \<Rightarrow> string \<Rightarrow> (string \<times> string) list \<Rightarrow> string list \<Rightarrow> number httpExchange"
  updateNoteFieldsReply :: "number \<Rightarrow> (string \<times> string) list \<Rightarrow> unit httpExchange"

text \<open>
  The typed operations. \<^verbatim>\<open>addNote\<close> sends \<^verbatim>\<open>params.tags || []\<close> and
  \<^verbatim>\<open>allowDuplicate: false\<close>.
\<close>

definition checkAnkiConnection :: "ankiPeer \<Rightarrow> request list \<Rightarrow> bool \<times> request list" where
  "checkAnkiConnection p sent =
     (case invokeAnkiConnect Version (versionReply p) sent of
        (Inl e, sent') \<Rightarrow> (False, sent')
      | (Inr v, sent') \<Rightarrow> (True, sent'))"

definition addNote ::
  "ankiPeer \<Rightarrow> string \<Rightarrow> string \<Rightarrow> (string \<times> string) list \<Rightarrow> string list option \<Rightarrow>
     request list \<Rightarrow> (exn + number) \<times> request list" where
  "addNote p dName mName fields' ts sent =
     (let ts' = (case ts of None \<Rightarrow> [] | Some t \<Rightarrow> t)
      in invokeAnkiConnect (AddNote dName mName fields' ts' False)
           (addNoteReply p dName mName fields' ts') sent)"

definition findNotes ::
  "ankiPeer \<Rightarrow> string \<Rightarrow> request list \<Rightarrow> (exn + number list) \<times> request list" where
  "findNotes p query sent = invokeAnkiConnect (FindNotes query) (findNotesReply p query) sent"

definition notesInfo ::
  "ankiPeer \<Rightarrow> number list \<Rightarrow> request list \<Rightarrow> (exn + noteInfo list) \<times> request list" where
  "notesInfo p noteIds sent = invokeAnkiConnect (NotesInfo noteIds) (notesInfoReply p noteIds) sent"

definition updateNoteFields ::
  "ankiPeer \<Rightarrow> number \<Rightarrow> (string \<times> string) list \<Rightarrow> request list \<Rightarrow>
     (exn + unit) \<times> request list" where
  "updateNoteFields p nId fields' sent =
     invokeAnkiConnect (UpdateNoteFields nId fields') (updateNoteFieldsReply p nId fields') sent"

section \<open>The add-card tool\<close>

text \<open>
  \<^verbatim>\<open>markdownToAnkiHtml\<close> renders with the markdown-it library, which is not part of
  the repository: the renderer is a parameter \<open>render\<close> of the model. The replacement
  \<^verbatim>\<open>html.replace(/^<p>|<\/p>\n?$/g, "")\<close> has no multi-line flag: it removes
  \<^verbatim>\<open><p>\<close> at the very start and \<^verbatim>\<open></p>\<close>, with one line feed after it or none, at
  the very end. The two matches cannot overlap.
\<close>

definition stripWrappingP :: "string \<Rightarrow> string" where
  "stripWrappingP html =
     (let s = (if take 3 html = ''<p>'' then drop 3 html else html);
          n = length s
      in if 5 \<le> n \<and> drop (n - 5) s = ''</p>'' @ [CHR 0x0A] then take (n - 5) s
         else if 4 \<le> n \<and> drop (n - 4) s = ''</p>'' then take (n - 4) s
         else s)"

definition markdownToAnkiHtml :: "(string \<Rightarrow> string) \<Rightarrow> string \<Rightarrow> string" where
  "markdownToAnkiHtml render markdown = trim (stripWrappingP (render markdown))"

record toolInput =
  deckId :: number
  Front :: string
  Back :: string
  tags :: "string option"

text \<open>
  The tool answers with a message. The model keeps one constructor per
  \<^verbatim>\<open>return\<close> of the source, with the values the message interpolates:
  the deck id; the number of duplicate ids and, per duplicate, its note id and its
  fields; deck name, note type, note id, fields and tags of a created card; error
  message, note type and deck name of a failed creation.
\<close>

datatype toolResult =
    InvalidDeckId
  | FrontRequired
  | BackRequired
  | CannotConnect
  | NoConfigurations
  | DeckNotConfigured number
  | DuplicatesFound nat "(number \<times> (string \<times> string) list) list"
  | CardCreated string string number "(string \<times> string) list" "string list"
  | CreateFailed string string string

text \<open>
  The parts of \<^verbatim>\<open>tool\<close>: the fields object (insertion order Front, Back), the tags
  (\<^verbatim>\<open>input.tags ? input.tags.split(",").map((t) => t.trim()) : []\<close>, where the empty
  string is falsy), the search query \<^verbatim>\<open>deck:"${deckConfiguration.deckName}" ${input.Front}\<close>
  and the list of existing cards in the warning. On a note without fields
  \<^verbatim>\<open>Object.entries(note.fields)\<close> throws a \<^verbatim>\<open>TypeError\<close>, and with it the whole
  \<^verbatim>\<open>map\<close>: \<open>existingCards\<close> is \<open>None\<close> then.
\<close>

definition cardFields :: "(string \<Rightarrow> string) \<Rightarrow> toolInput \<Rightarrow> (string \<times> string) list" where
  "cardFields render input =
     [(''Front'', markdownToAnkiHtml render (Front input)),
      (''Back'', markdownToAnkiHtml render (Back input))]"

definition parseTags :: "toolInput \<Rightarrow> string list" where
  "parseTags input =
     (case tags input of
        None \<Rightarrow> []
      | Some t \<Rightarrow> (if t = [] then [] else map trim (splitComma t)))"

definition duplicateQuery :: "deckConfiguration \<Rightarrow> toolInput \<Rightarrow> string" where
  "duplicateQuery deckConfiguration input =
     ''deck:'' @ [CHR 0x22] @ deckName deckConfiguration @ [CHR 0x22] @ '' '' @ Front input"

fun existingCard :: "noteInfo \<Rightarrow> (number \<times> (string \<times> string) list) option" where
  "existingCard EmptyNote = None"
| "existingCard (Note nId mName ts fs) = Some (nId, map (\<lambda>(key, v). (key, fieldValue v)) fs)"

definition existingCards ::
  "noteInfo list \<Rightarrow> (number \<times> (string \<times> string) list) list option" where
  "existingCards duplicateInfo = those (map existingCard duplicateInfo)"

text \<open>
  The first \<^verbatim>\<open>try\<close> block: \<open>Some\<close> of the warning the tool returns, or \<open>None\<close> when the
  tool goes on to create the card, which is also where the \<^verbatim>\<open>catch\<close> leads, from
  either call and from the listing of the notes.
\<close>

definition duplicateCheck ::
  "ankiPeer \<Rightarrow> deckConfiguration \<Rightarrow> toolInput \<Rightarrow> request list \<Rightarrow>
     toolResult option \<times> request list" where
  "duplicateCheck p deckConfiguration input sent =
     (case findNotes p (duplicateQuery deckConfiguration input) sent of
        (Inl e, sent1) \<Rightarrow> (None, sent1)
      | (Inr duplicateIds, sent1) \<Rightarrow>
          (if length duplicateIds > 0 then
             (case notesInfo p duplicateIds sent1 of
                (Inl e, sent2) \<Rightarrow> (None, sent2)
              | (Inr duplicateInfo, sent2) \<Rightarrow>
                  (case existingCards duplicateInfo of
                     None \<Rightarrow> (None, sent2)
                   | Some cards \<Rightarrow>
                       (Some (DuplicatesFound (length duplicateIds) cards), sent2)))
           else (None, sent1)))"

text \<open>The second \<^verbatim>\<open>try\<close> block.\<close>

definition createCard ::
  "ankiPeer \<Rightarrow> deckConfiguration \<Rightarrow> (string \<times> string) list \<Rightarrow> string list \<Rightarrow> request list \<Rightarrow>
     toolResult \<times> request list" where
  "createCard p deckConfiguration fields' ts sent =
     (case addNote p (deckName deckConfiguration) (noteTypeName (noteType deckConfiguration))
             fields' (Some ts) sent of
        (Inr nId, sent') \<Rightarrow>
          (CardCreated (deckName deckConfiguration) (noteTypeName (noteType deckConfiguration))
             nId fields' ts, sent')
      | (Inl (Error errorMessage), sent') \<Rightarrow>
          (CreateFailed errorMessage (noteTypeName (noteType deckConfiguration))
             (deckName deckConfiguration), sent'))"

text \<open>
  The tool: its answer and the requests it sent to the peer, in order. The
  static type of \<^verbatim>\<open>deckId\<close> makes the \<^verbatim>\<open>typeof\<close> test pass.
\<close>

definition tool ::
  "(string \<Rightarrow> string) \<Rightarrow> toolInput \<Rightarrow> localStorage \<Rightarrow> ankiPeer \<Rightarrow> toolResult \<times> request list" where
  "tool render input st p =
     (if toolInput.deckId input \<le> 0 then (InvalidDeckId, [])
      else if Front input = [] \<or> trim (Front input) = [] then (FrontRequired, [])
      else if Back input = [] \<or> trim (Back input) = [] then (BackRequired, [])
      else
        (case checkAnkiConnection p [] of
           (False, sent) \<Rightarrow> (CannotConnect, sent)
         | (True, sent) \<Rightarrow>
             (let configurations = getDeckConfigurations st
              in if length configurations = 0 then (NoConfigurations, sent)
                 else
                   (case find (\<lambda>c. deckConfiguration.deckId c = toolInput.deckId input)
                           configurations of
                      None \<Rightarrow> (DeckNotConfigured (toolInput.deckId input), sent)
                    | Some deckConfiguration \<Rightarrow>
                        (let fields' = cardFields render input;
                             ts = parseTags input
                         in (case duplicateCheck p deckConfiguration input sent of
                               (Some warning, sent') \<Rightarrow> (warning, sent')
                             | (None, sent') \<Rightarrow>
                                 createCard p deckConfiguration fields' ts sent'))))))"

text \<open>
  The host shows the tool's confirmation prompt (\<^verbatim>\<open>"Create this card in Anki?"\<close>
  with the deck, note type, front, back and tags) and runs the tool once the user has
  approved it: a run of \<open>tool\<close> is an approved submission. The prompt has no other
  choice than to approve or not, and nothing of the response is handed to the tool,
  whose only argument is the input.
\<close>



section \<open>Observations on a run\<close>

text \<open>The requests that change the peer's collection.\<close>

fun isAddNote :: "request \<Rightarrow> bool" where
  "isAddNote (AddNote dName mName fields' ts allowDuplicate) = True"
| "isAddNote r = False"

fun isUpdateNoteFields :: "request \<Rightarrow> bool" where
  "isUpdateNoteFields (UpdateNoteFields nId fields') = True"
| "isUpdateNoteFields r = False"

definition isWrite :: "request \<Rightarrow> bool" where
  "isWrite r \<longleftrightarrow> isAddNote r \<or> isUpdateNoteFields r"

text \<open>The note carries its fields.\<close>

fun hasFields :: "noteInfo \<Rightarrow> bool" where
  "hasFields EmptyNote = False"
| "hasFields (Note nId mName ts fs) = True"

text \<open>
  The run sent a search and the peer answered it with the id list \<open>ids\<close>; the run sent
  a search and the search, or the detail lookup that followed it, threw.
\<close>

fun searchAnswered :: "ankiPeer \<Rightarrow> number list \<Rightarrow> request \<Rightarrow> bool" where
  "searchAnswered p ids (FindNotes query) \<longleftrightarrow> receive (findNotesReply p query) = Inr ids"
| "searchAnswered p ids r \<longleftrightarrow> False"

definition searchReturned :: "request list \<Rightarrow> ankiPeer \<Rightarrow> number list \<Rightarrow> bool" where
  "searchReturned sent p ids = list_ex (searchAnswered p ids) sent"

fun checkThrew :: "ankiPeer \<Rightarrow> request \<Rightarrow> bool" where
  "checkThrew p (FindNotes query) \<longleftrightarrow>
     (case receive (findNotesReply p query) of
        Inl e \<Rightarrow> True
      | Inr ids \<Rightarrow> ids \<noteq> [] \<and> isl (receive (notesInfoReply p ids)))"
| "checkThrew p r \<longleftrightarrow> False"

definition duplicateCheckThrew :: "request list \<Rightarrow> ankiPeer \<Rightarrow> bool" where
  "duplicateCheckThrew sent p = list_ex (checkThrew p) sent"

section \<open>Example data\<close>

text \<open>
  What the renderer makes of one line of plain text: a paragraph. The examples run the
  tool with it.
\<close>

definition plainParagraph :: "string \<Rightarrow> string" where
  "plainParagraph s = ''<p>'' @ s @ ''</p>'' @ [CHR 0x0A]"

definition answer :: "'a \<Rightarrow> 'a httpExchange" where
  "answer v = Parsed \<lparr>result = Some v, error = None\<rparr>"

definition refusal :: "string \<Rightarrow> 'a httpExchange" where
  "refusal m = Parsed \<lparr>result = None, error = Some m\<rparr>"

definition vocabConfiguration :: deckConfiguration where
  "vocabConfiguration =
     \<lparr>deckConfiguration.deckId = 1, deckName = ''Spanish::Vocab'',
      purpose = ''Spanish vocabulary'', noteType = Basic,
      frontTemplate = ''Spanish word'', backTemplate = ''Meanings'',
      frontExample = ''hablar'', backExample = ''to speak''\<rparr>"

definition hablar :: toolInput where
  "hablar = \<lparr>deckId = 1, Front = ''hablar'', Back = ''to speak'', tags = None\<rparr>"

definition hablarNote :: noteInfo where
  "hablarNote = Note 17 ''Basic'' [] [(''Front'', NoteField ''hablar'' 0)]"

text \<open>
  What the renderer, configured as in the source (raw markup off, line breaks on, no
  automatic links), returns on four inputs: plain text comes back as a paragraph,
  emphasis as a tag, and a tag in the input comes back escaped. The table stands for
  the renderer in the examples on conversion.
\<close>

definition renderedSamples :: "(string \<times> string) list" where
  "renderedSamples =
     [(''hablar'', ''<p>hablar</p>'' @ [CHR 0x0A]),
      (''to speak'', ''<p>to speak</p>'' @ [CHR 0x0A]),
      (''**hablar**'', ''<p><strong>hablar</strong></p>'' @ [CHR 0x0A]),
      (''<strong>hablar</strong>'', ''<p>&lt;strong&gt;hablar&lt;/strong&gt;</p>'' @ [CHR 0x0A])]"

definition renderSample :: "string \<Rightarrow> string" where
  "renderSample s = (case map_of renderedSamples s of None \<Rightarrow> [] | Some html \<Rightarrow> html)"

text \<open>
  A peer with no matching note, a peer that holds one, a peer that finds one and fails
  to give its details, a peer that finds one it can no longer load, a peer that finds
  none and refuses the new note, and a peer whose search fails.
\<close>

definition quietPeer :: ankiPeer where
  "quietPeer =
     \<lparr>versionReply = answer 6,
      findNotesReply = (\<lambda>query. answer []),
      notesInfoReply = (\<lambda>noteIds. answer []),
      addNoteReply = (\<lambda>dName mName fields' ts. answer 1496198395707),
      updateNoteFieldsReply = (\<lambda>nId fields'. answer ())\<rparr>"

definition holdingPeer :: ankiPeer where
  "holdingPeer =
     quietPeer\<lparr>findNotesReply := (\<lambda>query. answer [17]),
               notesInfoReply := (\<lambda>noteIds. answer [hablarNote])\<rparr>"

definition forgetfulPeer :: ankiPeer where
  "forgetfulPeer =
     quietPeer\<lparr>findNotesReply := (\<lambda>query. answer [17]),
               notesInfoReply := (\<lambda>noteIds. HttpError ''Internal Server Error'')\<rparr>"

definition stalePeer :: ankiPeer where
  "stalePeer =
     quietPeer\<lparr>findNotesReply := (\<lambda>query. answer [17]),
               notesInfoReply := (\<lambda>noteIds. answer [EmptyNote])\<rparr>"

definition refusingPeer :: ankiPeer where
  "refusingPeer =
     quietPeer\<lparr>addNoteReply :=
       (\<lambda>dName mName fields' ts. refusal ''cannot create note because it is a duplicate'')\<rparr>"

definition deafPeer :: ankiPeer where
  "deafPeer = quietPeer\<lparr>findNotesReply := (\<lambda>query. NetworkFailure ''fetch failed'')\<rparr>"

section \<open>Auxiliary facts\<close>

lemmas client_defs = checkAnkiConnection_def invokeAnkiConnect_def findNotes_def notesInfo_def
  addNote_def updateNoteFields_def

lemmas example_defs = plainParagraph_def answer_def refusal_def vocabConfiguration_def hablar_def
  hablarNote_def quietPeer_def holdingPeer_def forgetfulPeer_def refusingPeer_def deafPeer_def
  stalePeer_def renderedSamples_def renderSample_def

lemma trim_Nil [simp]: "trim [] = []"
  by (simp add: trim_def)

lemma duplicateCheck_eq:
  "duplicateCheck p dc input sent =
     (case receive (findNotesReply p (duplicateQuery dc input)) of
        Inl e \<Rightarrow> (None, sent @ [FindNotes (duplicateQuery dc input)])
      | Inr ids \<Rightarrow>
          (if ids = [] then (None, sent @ [FindNotes (duplicateQuery dc input)])
           else (case receive (notesInfoReply p ids) of
                   Inl e \<Rightarrow> (None, sent @ [FindNotes (duplicateQuery dc input), NotesInfo ids])
                 | Inr infos \<Rightarrow>
                     (map_option (DuplicatesFound (length ids)) (existingCards infos),
                      sent @ [FindNotes (duplicateQuery dc input), NotesInfo ids]))))"
  by (simp add: duplicateCheck_def client_defs split: sum.splits option.splits)

lemma existingCards_hasFields:
  "list_all hasFields infos \<Longrightarrow>
     existingCards infos =
       Some (map (\<lambda>note. (noteId note, map (\<lambda>(key, v). (key, fieldValue v)) (noteFields note)))
               infos)"
proof (induction infos)
  case Nil
  show ?case by (simp add: existingCards_def)
next
  case (Cons info infos)
  then show ?case by (cases info) (simp_all add: existingCards_def)
qed

lemma createCard_eq:
  "createCard p dc fs ts sent =
     (case receive (addNoteReply p (deckName dc) (noteTypeName (noteType dc)) fs ts) of
        Inl e \<Rightarrow> (case e of Error m \<Rightarrow>
                   (CreateFailed m (noteTypeName (noteType dc)) (deckName dc),
                    sent @ [AddNote (deckName dc) (noteTypeName (noteType dc)) fs ts False]))
      | Inr n \<Rightarrow> (CardCreated (deckName dc) (noteTypeName (noteType dc)) n fs ts,
                  sent @ [AddNote (deckName dc) (noteTypeName (noteType dc)) fs ts False]))"
  by (simp add: createCard_def client_defs split: sum.splits exn.splits)

lemma tool_invalid:
  assumes "\<not> (0 < toolInput.deckId input \<and> trim (Front input) \<noteq> [] \<and> trim (Back input) \<noteq> [])"
  shows "snd (tool render input st p) = []"
    and "fst (tool render input st p) =
           (if toolInput.deckId input \<le> 0 then InvalidDeckId
            else if trim (Front input) = [] then FrontRequired
            else BackRequired)"
  using assms by (auto simp: tool_def)

lemma tool_valid:
  assumes "0 < toolInput.deckId input" "trim (Front input) \<noteq> []" "trim (Back input) \<noteq> []"
  shows "tool render input st p =
        (if isl (receive (versionReply p)) then (CannotConnect, [Version])
         else (case find (\<lambda>c. deckConfiguration.deckId c = toolInput.deckId input) (getDeckConfigurations st) of
                  None \<Rightarrow> (if getDeckConfigurations st = [] then NoConfigurations
                            else DeckNotConfigured (toolInput.deckId input), [Version])
                | Some dc \<Rightarrow>
                   (case duplicateCheck p dc input [Version] of
                               (Some warning, sent') \<Rightarrow> (warning, sent')
                             | (None, sent') \<Rightarrow>
                                 createCard p dc (cardFields render input) (parseTags input) sent')))"
  using assms
  by (auto simp: tool_def client_defs Let_def split: sum.splits option.splits prod.splits bool.splits)

lemma connected_iff: "fst (checkAnkiConnection p sent) \<longleftrightarrow> \<not> isl (receive (versionReply p))"
  by (simp add: client_defs split: sum.splits)

lemma FindNotes_sent:
  assumes "FindNotes q \<in> set (snd (tool render input st p))"
  shows "0 < toolInput.deckId input \<and> trim (Front input) \<noteq> [] \<and> trim (Back input) \<noteq> [] \<and>
         \<not> isl (receive (versionReply p)) \<and>
         (\<exists>dc. find (\<lambda>c. deckConfiguration.deckId c = toolInput.deckId input) (getDeckConfigurations st) = Some dc
               \<and> q = duplicateQuery dc input)"
proof -
  have v: "0 < toolInput.deckId input \<and> trim (Front input) \<noteq> [] \<and> trim (Back input) \<noteq> []"
    using assms tool_invalid(1)[of input render st p] by fastforce
  with assms show ?thesis
    by (auto simp: tool_valid duplicateCheck_eq createCard_eq
        split: if_splits option.splits sum.splits exn.splits)
qed

lemma FindNotes_sent_conv:
  assumes "0 < toolInput.deckId input" "trim (Front input) \<noteq> []" "trim (Back input) \<noteq> []"
    "\<not> isl (receive (versionReply p))"
    "find (\<lambda>c. deckConfiguration.deckId c = toolInput.deckId input) (getDeckConfigurations st) = Some dc"
  shows "FindNotes (duplicateQuery dc input) \<in> set (snd (tool render input st p))"
  using assms
  by (auto simp: tool_valid duplicateCheck_eq createCard_eq
        split: if_splits option.splits sum.splits exn.splits)

lemma list_ex_searchAnswered:
  "list_ex (searchAnswered p ids) sent \<longleftrightarrow>
     (\<exists>q. FindNotes q \<in> set sent \<and> receive (findNotesReply p q) = Inr ids)"
proof (induction sent)
  case Nil
  show ?case by simp
next
  case (Cons r sent)
  then show ?case by (cases r) auto
qed

lemma list_ex_checkThrew:
  "list_ex (checkThrew p) sent \<longleftrightarrow>
     (\<exists>q. FindNotes q \<in> set sent \<and> checkThrew p (FindNotes q))"
proof (induction sent)
  case Nil
  show ?case by simp
next
  case (Cons r sent)
  then show ?case by (cases r) auto
qed

lemma find_unconfigured:
  "\<not> isDeckConfigured d st \<Longrightarrow> find (\<lambda>c. deckConfiguration.deckId c = d) (getDeckConfigurations st) = None"
  by (simp add: isDeckConfigured_def list_ex_iff find_None_iff)

lemma dropWhile_trim: "dropWhile isWhiteSpace (trim s) = trim s"
proof (cases "dropWhile isWhiteSpace s")
  case Nil
  show ?thesis unfolding trim_def Nil by simp
next
  case (Cons x u)
  then have x: "\<not> isWhiteSpace x"
    by (metis hd_dropWhile list.sel(1) list.distinct(1))
  have "dropWhile isWhiteSpace (rev u @ [x]) = dropWhile isWhiteSpace (rev u) @ [x]"
    using x by (simp add: dropWhile_append)
  then have "trim s = x # rev (dropWhile isWhiteSpace (rev u))"
    using Cons by (simp add: trim_def)
  then show ?thesis using x by simp
qed

lemma trim_trim: "trim (trim s) = trim s"
proof -
  have "trim (trim s) = rev (dropWhile isWhiteSpace (rev (trim s)))"
    by (simp add: trim_def[of "trim s"] dropWhile_trim)
  also have "\<dots> = trim s"
    by (simp add: trim_def[of s])
  finally show ?thesis .
qed

lemma stripWrappingP_paragraph:
  "stripWrappingP (''<p>'' @ y @ ''</p>'' @ [CHR 0x0A]) = y"
  by (simp add: stripWrappingP_def)

lemma onePerDeckId_add: "onePerDeckId st \<Longrightarrow> onePerDeckId (addDeckConfiguration c st)"
  by (auto simp: onePerDeckId_def addDeckConfiguration_def getDeckConfigurations_def
      saveDeckConfigurations_def distinct_map_filter split: option.splits)

lemma onePerDeckId_remove: "onePerDeckId st \<Longrightarrow> onePerDeckId (removeDeckConfiguration d st)"
  by (auto simp: onePerDeckId_def removeDeckConfiguration_def getDeckConfigurations_def
      saveDeckConfigurations_def distinct_map_filter split: option.splits)

lemma onePerDeckId_applyOp: "onePerDeckId st \<Longrightarrow> onePerDeckId (applyOp st x)"
  by (cases x) (simp_all add: onePerDeckId_add onePerDeckId_remove)

lemma onePerDeckId_foldl: "onePerDeckId st \<Longrightarrow> onePerDeckId (foldl applyOp st ops)"
  by (induction ops arbitrary: st) (simp_all add: onePerDeckId_applyOp)


text \<open>
  The client's update operation sends an update request; no run of the tool sends one.
\<close>

lemma updateNoteFields_sends:
  "snd (updateNoteFields p nId fs sent) = sent @ [UpdateNoteFields nId fs]"
  by (simp add: client_defs)


lemma tool_warns:
  assumes "searchReturned (snd (tool render input st p)) p ids"
    and "ids \<noteq> []"
    and "receive (notesInfoReply p ids) = Inr infos"
    and "list_all hasFields infos"
  shows "fst (tool render input st p) =
           DuplicatesFound (length ids)
             (map (\<lambda>note. (noteId note, map (\<lambda>(key, v). (key, fieldValue v)) (noteFields note))) infos)"
    and "filter isWrite (snd (tool render input st p)) = []"
proof -
  from assms(1) obtain q where q: "FindNotes q \<in> set (snd (tool render input st p))"
    "receive (findNotesReply p q) = Inr ids"
    by (auto simp: searchReturned_def list_ex_searchAnswered)
  from FindNotes_sent[OF q(1)] obtain dc where
    v: "0 < toolInput.deckId input" "trim (Front input) \<noteq> []" "trim (Back input) \<noteq> []"
       "\<not> isl (receive (versionReply p))" "q = duplicateQuery dc input"
       "find (\<lambda>c. deckConfiguration.deckId c = toolInput.deckId input) (getDeckConfigurations st) = Some dc"
    by auto
  show "fst (tool render input st p) =
           DuplicatesFound (length ids)
             (map (\<lambda>note. (noteId note, map (\<lambda>(key, v). (key, fieldValue v)) (noteFields note))) infos)"
    using assms(2,3) v q(2) existingCards_hasFields[OF assms(4)]
    by (simp add: tool_valid duplicateCheck_eq)
  show "filter isWrite (snd (tool render input st p)) = []"
    using assms(2,3) v q(2) existingCards_hasFields[OF assms(4)]
    by (simp add: tool_valid duplicateCheck_eq isWrite_def)
qed

text \<open>The example runs, evaluated.\<close>

lemmas run_defs = tool_def client_defs example_defs getDeckConfigurations_def duplicateCheck_def
  createCard_def cardFields_def parseTags_def markdownToAnkiHtml_def stripWrappingP_def trim_def
  isWhiteSpace_def duplicateQuery_def truthy_def existingCards_def Let_def

lemma trim_hablar: "trim (Front hablar) = ''hablar''" "trim (Back hablar) = ''to speak''"
  by (simp_all add: hablar_def trim_def isWhiteSpace_def)

lemma convert_hablar:
  "markdownToAnkiHtml plainParagraph (Front hablar) = ''hablar''"
  "markdownToAnkiHtml plainParagraph (Back hablar) = ''to speak''"
  by (simp_all add: hablar_def markdownToAnkiHtml_def plainParagraph_def stripWrappingP_def
      trim_def isWhiteSpace_def)

lemma find_hablar:
  "find (\<lambda>c. deckConfiguration.deckId c = toolInput.deckId hablar)
     (getDeckConfigurations (Some [vocabConfiguration])) = Some vocabConfiguration"
  by (simp add: getDeckConfigurations_def hablar_def vocabConfiguration_def)

lemma fixture_sel:
  "tags hablar = None"
  "deckName vocabConfiguration = ''Spanish::Vocab''"
  "noteType vocabConfiguration = Basic"
  by (simp_all add: hablar_def vocabConfiguration_def)

lemma peer_replies:
  "receive (versionReply quietPeer) = Inr 6"
  "receive (findNotesReply quietPeer q) = Inr []"
  "receive (addNoteReply quietPeer d m f t) = Inr 1496198395707"
  "receive (findNotesReply holdingPeer q) = Inr [17]"
  "receive (notesInfoReply holdingPeer ids) = Inr [hablarNote]"
  "receive (findNotesReply forgetfulPeer q) = Inr [17]"
  "receive (notesInfoReply forgetfulPeer ids) = Inl (Error ''AnkiConnect request failed: Internal Server Error'')"
  "receive (findNotesReply refusingPeer q) = Inr []"
  "receive (findNotesReply deafPeer q) = Inl (Error ''fetch failed'')"
  "receive (findNotesReply stalePeer q) = Inr [17]"
  "receive (notesInfoReply stalePeer ids) = Inr [EmptyNote]"
  by (simp_all add: example_defs truthy_def)

lemma run_quiet:
  "tool plainParagraph hablar (Some [vocabConfiguration]) quietPeer =
     (CardCreated ''Spanish::Vocab'' ''Basic'' 1496198395707
        [(''Front'', ''hablar''), (''Back'', ''to speak'')] [],
      [Version,
       FindNotes (''deck:'' @ [CHR 0x22] @ ''Spanish::Vocab'' @ [CHR 0x22] @ '' hablar''),
       AddNote ''Spanish::Vocab'' ''Basic'' [(''Front'', ''hablar''), (''Back'', ''to speak'')] []
         False])"
  by (simp add: run_defs)

lemma run_holding:
  "tool plainParagraph hablar (Some [vocabConfiguration]) holdingPeer =
     (DuplicatesFound 1 [(17, [(''Front'', ''hablar'')])],
      [Version,
       FindNotes (''deck:'' @ [CHR 0x22] @ ''Spanish::Vocab'' @ [CHR 0x22] @ '' hablar''),
       NotesInfo [17]])"
  by (simp add: run_defs)

lemma run_forgetful:
  "tool plainParagraph hablar (Some [vocabConfiguration]) forgetfulPeer =
     (CardCreated ''Spanish::Vocab'' ''Basic'' 1496198395707
        [(''Front'', ''hablar''), (''Back'', ''to speak'')] [],
      [Version,
       FindNotes (''deck:'' @ [CHR 0x22] @ ''Spanish::Vocab'' @ [CHR 0x22] @ '' hablar''),
       NotesInfo [17],
       AddNote ''Spanish::Vocab'' ''Basic'' [(''Front'', ''hablar''), (''Back'', ''to speak'')] []
         False])"
  by (simp add: run_defs)

lemma run_stale:
  "tool plainParagraph hablar (Some [vocabConfiguration]) stalePeer =
     (CardCreated ''Spanish::Vocab'' ''Basic'' 1496198395707
        [(''Front'', ''hablar''), (''Back'', ''to speak'')] [],
      [Version,
       FindNotes (''deck:'' @ [CHR 0x22] @ ''Spanish::Vocab'' @ [CHR 0x22] @ '' hablar''),
       NotesInfo [17],
       AddNote ''Spanish::Vocab'' ''Basic'' [(''Front'', ''hablar''), (''Back'', ''to speak'')] []
         False])"
  by (simp add: run_defs)

lemma run_refusing:
  "tool plainParagraph hablar (Some [vocabConfiguration]) refusingPeer =
     (CreateFailed ''cannot create note because it is a duplicate'' ''Basic'' ''Spanish::Vocab'',
      [Version,
       FindNotes (''deck:'' @ [CHR 0x22] @ ''Spanish::Vocab'' @ [CHR 0x22] @ '' hablar''),
       AddNote ''Spanish::Vocab'' ''Basic'' [(''Front'', ''hablar''), (''Back'', ''to speak'')] []
         False])"
  by (simp add: run_defs)

lemma run_deaf:
  "tool plainParagraph hablar (Some [vocabConfiguration]) deafPeer =
     (CardCreated ''Spanish::Vocab'' ''Basic'' 1496198395707
        [(''Front'', ''hablar''), (''Back'', ''to speak'')] [],
      [Version,
       FindNotes (''deck:'' @ [CHR 0x22] @ ''Spanish::Vocab'' @ [CHR 0x22] @ '' hablar''),
       AddNote ''Spanish::Vocab'' ''Basic'' [(''Front'', ''hablar''), (''Back'', ''to speak'')] []
         False])"
  by (simp add: run_defs)

section \<open>C1: a submission with no duplicate is created\<close>

text \<open>
  C1, as amended. For every approved submission whose front and back are non-empty after
  trimming, whose deck id matches the stored configuration \<open>dc\<close>, whose duplicate search
  was sent and came back with the empty id list, and whose create call the peer answers
  with the note id \<open>n\<close>: the tool answers that the card was created, with \<open>n\<close>, and the one
  write it sent is the create call for the deck and note type of \<open>dc\<close> with the field map
  Front = converted front, Back = converted back, the parsed tags, and duplicates not
  allowed.
\<close>

theorem tool_creates:
  assumes "trim (Front input) \<noteq> []" and "trim (Back input) \<noteq> []"
    and "find (\<lambda>c. deckConfiguration.deckId c = toolInput.deckId input) (getDeckConfigurations st) = Some dc"
    and "searchReturned (snd (tool render input st p)) p []"
    and "receive (addNoteReply p (deckName dc) (noteTypeName (noteType dc))
            [(''Front'', markdownToAnkiHtml render (Front input)),
             (''Back'', markdownToAnkiHtml render (Back input))] (parseTags input)) = Inr n"
  shows "fst (tool render input st p) =
           CardCreated (deckName dc) (noteTypeName (noteType dc)) n
             [(''Front'', markdownToAnkiHtml render (Front input)),
              (''Back'', markdownToAnkiHtml render (Back input))] (parseTags input)
         \<and> filter isWrite (snd (tool render input st p)) =
             [AddNote (deckName dc) (noteTypeName (noteType dc))
                [(''Front'', markdownToAnkiHtml render (Front input)),
                 (''Back'', markdownToAnkiHtml render (Back input))] (parseTags input) False]"
proof -
  from assms(4) obtain q where q: "FindNotes q \<in> set (snd (tool render input st p))"
    "receive (findNotesReply p q) = Inr []"
    by (auto simp: searchReturned_def list_ex_searchAnswered)
  from FindNotes_sent[OF q(1)] assms(3) have
    v: "0 < toolInput.deckId input" "\<not> isl (receive (versionReply p))" "q = duplicateQuery dc input"
    by auto
  show ?thesis
    using assms(1,2,3,5) v q(2)
    by (simp add: tool_valid duplicateCheck_eq createCard_eq cardFields_def isWrite_def)
qed

text \<open>
  The theorem at the example submission and a peer with no matching note: the card is
  created with the fields as submitted.
\<close>

theorem tool_creates_witness:
  "trim (Front hablar) \<noteq> [] \<and> trim (Back hablar) \<noteq> [] \<and>
   searchReturned (snd (tool plainParagraph hablar (Some [vocabConfiguration]) quietPeer)) quietPeer [] \<and>
   fst (tool plainParagraph hablar (Some [vocabConfiguration]) quietPeer) =
     CardCreated ''Spanish::Vocab'' ''Basic'' 1496198395707
       [(''Front'', ''hablar''), (''Back'', ''to speak'')] [] \<and>
   filter isWrite (snd (tool plainParagraph hablar (Some [vocabConfiguration]) quietPeer)) =
     [AddNote ''Spanish::Vocab'' ''Basic'' [(''Front'', ''hablar''), (''Back'', ''to speak'')] [] False]"
proof -
  have h1: "trim (Front hablar) \<noteq> []" and h2: "trim (Back hablar) \<noteq> []"
    by (simp_all add: trim_hablar)
  have h4: "searchReturned (snd (tool plainParagraph hablar (Some [vocabConfiguration]) quietPeer))
              quietPeer []"
    by (simp add: run_quiet searchReturned_def peer_replies)
  have h5: "receive (addNoteReply quietPeer (deckName vocabConfiguration)
              (noteTypeName (noteType vocabConfiguration))
              [(''Front'', markdownToAnkiHtml plainParagraph (Front hablar)),
               (''Back'', markdownToAnkiHtml plainParagraph (Back hablar))] (parseTags hablar))
            = Inr 1496198395707"
    by (simp add: peer_replies)
  from tool_creates[OF h1 h2 find_hablar h4 h5] h1 h2 h4 show ?thesis
    by (simp add: convert_hablar parseTags_def fixture_sel)
qed

text \<open>
  C1, as stated, fails: the front and back are non-empty, the deck is configured, the
  search was sent and returned no id, and the peer refuses the new note (its own check
  for duplicates is left on). The tool answers that the creation failed.
\<close>

theorem create_refused_counterexample:
  "trim (Front hablar) \<noteq> [] \<and> trim (Back hablar) \<noteq> [] \<and>
   find (\<lambda>c. deckConfiguration.deckId c = toolInput.deckId hablar)
     (getDeckConfigurations (Some [vocabConfiguration])) = Some vocabConfiguration \<and>
   searchReturned (snd (tool plainParagraph hablar (Some [vocabConfiguration]) refusingPeer))
     refusingPeer [] \<and>
   tool plainParagraph hablar (Some [vocabConfiguration]) refusingPeer =
     (CreateFailed ''cannot create note because it is a duplicate'' ''Basic'' ''Spanish::Vocab'',
      [Version,
       FindNotes (''deck:'' @ [CHR 0x22] @ ''Spanish::Vocab'' @ [CHR 0x22] @ '' hablar''),
       AddNote ''Spanish::Vocab'' ''Basic'' [(''Front'', ''hablar''), (''Back'', ''to speak'')] []
         False])"
  by (simp add: trim_hablar find_hablar run_refusing searchReturned_def peer_replies)

section \<open>C2: no update path\<close>




section \<open>C3: validation before any request\<close>

text \<open>
  C3, as amended. For every input whose deck id is a number not above zero, or whose
  front or back is empty after trimming, the tool answers with a validation error (invalid
  deck id; else front required; else back required) and has sent no request to the peer.
\<close>

theorem validation_rejects:
  assumes "toolInput.deckId input \<le> 0 \<or> trim (Front input) = [] \<or> trim (Back input) = []"
  shows "tool render input st p =
           (if toolInput.deckId input \<le> 0 then InvalidDeckId
            else if trim (Front input) = [] then FrontRequired
            else BackRequired, [])"
  using assms by (auto simp: tool_def)

text \<open>The theorem at a front of one space.\<close>

theorem validation_rejects_witness:
  "trim (Front (hablar\<lparr>Front := '' ''\<rparr>)) = [] \<and>
   tool plainParagraph (hablar\<lparr>Front := '' ''\<rparr>) (Some [vocabConfiguration]) quietPeer =
     (FrontRequired, [])"
proof -
  have h: "trim (Front (hablar\<lparr>Front := '' ''\<rparr>)) = []"
    by (simp add: trim_def isWhiteSpace_def)
  then have "toolInput.deckId (hablar\<lparr>Front := '' ''\<rparr>) \<le> 0 \<or> trim (Front (hablar\<lparr>Front := '' ''\<rparr>)) = []
      \<or> trim (Back (hablar\<lparr>Front := '' ''\<rparr>)) = []"
    by simp
  from validation_rejects[OF this, of plainParagraph "Some [vocabConfiguration]" quietPeer] h
  show ?thesis by (simp add: hablar_def)
qed

text \<open>
  C3, as stated, fails: the deck id 3/2 is not a positive integer, and it passes the
  validation, which tests only that the number is above zero. The probe is sent before
  the tool rejects the id as not configured.
\<close>

theorem fraction_deckId_counterexample:
  "tool plainParagraph (hablar\<lparr>deckId := 3 / 2\<rparr>) (Some [vocabConfiguration]) quietPeer =
     (DeckNotConfigured (3 / 2), [Version])"
  by (simp add: run_defs)

section \<open>C4: a deck id that is not configured\<close>

text \<open>
  C4, as amended. For every deck id with no stored configuration, the empty store
  included, the tool sends no write (neither create nor update) and answers with a
  rejection: a validation error, cannot connect, no configurations, or deck not
  configured. When the input passes validation and the peer answers the probe, the answer
  is no configurations for the empty store and deck not configured otherwise, and the
  probe is the only request sent.
\<close>

theorem unconfigured_deck_rejected:
  assumes "\<not> isDeckConfigured (toolInput.deckId input) st"
  shows "filter isWrite (snd (tool render input st p)) = [] \<and>
         fst (tool render input st p) \<in>
           {InvalidDeckId, FrontRequired, BackRequired, CannotConnect, NoConfigurations,
            DeckNotConfigured (toolInput.deckId input)} \<and>
         (0 < toolInput.deckId input \<and> trim (Front input) \<noteq> [] \<and> trim (Back input) \<noteq> [] \<and>
          fst (checkAnkiConnection p []) \<longrightarrow>
            tool render input st p =
              (if getDeckConfigurations st = [] then NoConfigurations
               else DeckNotConfigured (toolInput.deckId input), [Version]))"
proof (cases "0 < toolInput.deckId input \<and> trim (Front input) \<noteq> [] \<and> trim (Back input) \<noteq> []")
  case False
  from tool_invalid[OF this, of render st p] False show ?thesis
    by (auto split: if_splits)
next
  case True
  with find_unconfigured[OF assms] show ?thesis
    by (simp add: tool_valid connected_iff isWrite_def)
qed

text \<open>The theorem at the deck id 2, which the example store does not hold.\<close>

theorem unconfigured_deck_rejected_witness:
  "\<not> isDeckConfigured (toolInput.deckId (hablar\<lparr>deckId := 2\<rparr>)) (Some [vocabConfiguration]) \<and>
   0 < toolInput.deckId (hablar\<lparr>deckId := 2\<rparr>) \<and>
   fst (checkAnkiConnection quietPeer []) \<and>
   tool plainParagraph (hablar\<lparr>deckId := 2\<rparr>) (Some [vocabConfiguration]) quietPeer =
     (DeckNotConfigured 2, [Version])"
proof -
  have h: "\<not> isDeckConfigured (toolInput.deckId (hablar\<lparr>deckId := 2\<rparr>)) (Some [vocabConfiguration])"
    by (simp add: isDeckConfigured_def getDeckConfigurations_def vocabConfiguration_def)
  have v: "0 < toolInput.deckId (hablar\<lparr>deckId := 2\<rparr>)"
    "trim (Front (hablar\<lparr>deckId := 2\<rparr>)) \<noteq> []" "trim (Back (hablar\<lparr>deckId := 2\<rparr>)) \<noteq> []"
    "fst (checkAnkiConnection quietPeer [])"
    using trim_hablar by (simp_all add: connected_iff peer_replies)
  from unconfigured_deck_rejected[OF h, of plainParagraph quietPeer] h v show ?thesis
    by (simp add: getDeckConfigurations_def)
qed

text \<open>
  C4, as stated, fails: the deck id -5 is not in the store, and the tool answers with the
  validation error for an invalid deck id, not with deck not configured.
\<close>

theorem nonpositive_deckId_counterexample:
  "\<not> isDeckConfigured (- 5) (Some [vocabConfiguration]) \<and>
   tool plainParagraph (hablar\<lparr>deckId := - 5\<rparr>) (Some [vocabConfiguration]) quietPeer =
     (InvalidDeckId, [])"
  by (simp add: isDeckConfigured_def getDeckConfigurations_def vocabConfiguration_def tool_def)

section \<open>C5: a failed duplicate check does not stop the submission\<close>

text \<open>
  C5. If the run sent the duplicate search and the search threw, or the detail lookup
  after it threw, then the tool answers exactly what it answers when the search finds
  nothing, sends the same writes as in that case, and the create request is among the
  requests sent.
\<close>

theorem failed_check_goes_on:
  assumes "duplicateCheckThrew (snd (tool render input st p)) p"
  shows "fst (tool render input st p) =
           fst (tool render input st
                  (p\<lparr>findNotesReply := (\<lambda>query. Parsed \<lparr>result = Some [], error = None\<rparr>)\<rparr>))
         \<and> filter isWrite (snd (tool render input st p)) =
           filter isWrite (snd (tool render input st
                  (p\<lparr>findNotesReply := (\<lambda>query. Parsed \<lparr>result = Some [], error = None\<rparr>)\<rparr>)))
         \<and> list_ex isAddNote (snd (tool render input st p))"
proof -
  from assms obtain q where q: "FindNotes q \<in> set (snd (tool render input st p))"
    "checkThrew p (FindNotes q)"
    by (auto simp: duplicateCheckThrew_def list_ex_checkThrew)
  from FindNotes_sent[OF q(1)] obtain dc where
    v: "0 < toolInput.deckId input" "trim (Front input) \<noteq> []" "trim (Back input) \<noteq> []"
       "\<not> isl (receive (versionReply p))" "q = duplicateQuery dc input"
       "find (\<lambda>c. deckConfiguration.deckId c = toolInput.deckId input) (getDeckConfigurations st) = Some dc"
    by auto
  show ?thesis
    using v q(2)
    by (auto simp: tool_valid duplicateCheck_eq createCard_eq isWrite_def truthy_def
        split: sum.splits exn.splits)
qed


text \<open>
  The theorem at a peer whose search fails and at a peer whose detail lookup fails.
\<close>

theorem failed_check_goes_on_witness:
  "duplicateCheckThrew (snd (tool plainParagraph hablar (Some [vocabConfiguration]) deafPeer))
     deafPeer \<and>
   duplicateCheckThrew (snd (tool plainParagraph hablar (Some [vocabConfiguration]) forgetfulPeer))
     forgetfulPeer \<and>
   fst (tool plainParagraph hablar (Some [vocabConfiguration]) deafPeer) =
     fst (tool plainParagraph hablar (Some [vocabConfiguration])
            (deafPeer\<lparr>findNotesReply := (\<lambda>query. Parsed \<lparr>result = Some [], error = None\<rparr>)\<rparr>)) \<and>
   fst (tool plainParagraph hablar (Some [vocabConfiguration]) forgetfulPeer) =
     fst (tool plainParagraph hablar (Some [vocabConfiguration])
            (forgetfulPeer\<lparr>findNotesReply := (\<lambda>query. Parsed \<lparr>result = Some [], error = None\<rparr>)\<rparr>)) \<and>
   fst (tool plainParagraph hablar (Some [vocabConfiguration]) forgetfulPeer) =
     CardCreated ''Spanish::Vocab'' ''Basic'' 1496198395707
       [(''Front'', ''hablar''), (''Back'', ''to speak'')] [] \<and>
   list_ex isAddNote (snd (tool plainParagraph hablar (Some [vocabConfiguration]) deafPeer)) \<and>
   list_ex isAddNote (snd (tool plainParagraph hablar (Some [vocabConfiguration]) forgetfulPeer))"
proof -
  have h: "duplicateCheckThrew
      (snd (tool plainParagraph hablar (Some [vocabConfiguration]) deafPeer)) deafPeer"
    by (simp add: run_deaf duplicateCheckThrew_def peer_replies)
  have h': "duplicateCheckThrew
      (snd (tool plainParagraph hablar (Some [vocabConfiguration]) forgetfulPeer)) forgetfulPeer"
    by (simp add: run_forgetful duplicateCheckThrew_def peer_replies)
  from failed_check_goes_on[OF h] failed_check_goes_on[OF h'] h h' show ?thesis
    by (simp add: run_forgetful)
qed

section \<open>C6: converting converted text\<close>

text \<open>
  C6, as amended. For every input \<open>x\<close> whose converted text the renderer gives back
  unchanged inside one paragraph, as it does with plain text that holds no markup and
  nothing it escapes, converting the converted text again gives it back.
\<close>

theorem markdownToAnkiHtml_idem:
  assumes "render (markdownToAnkiHtml render x) =
             ''<p>'' @ markdownToAnkiHtml render x @ ''</p>'' @ [CHR 0x0A]"
  shows "markdownToAnkiHtml render (markdownToAnkiHtml render x) = markdownToAnkiHtml render x"
proof -
  have "markdownToAnkiHtml render (markdownToAnkiHtml render x) =
          trim (stripWrappingP (''<p>'' @ markdownToAnkiHtml render x @ ''</p>'' @ [CHR 0x0A]))"
    using assms by (simp add: markdownToAnkiHtml_def[of render "markdownToAnkiHtml render x"])
  also have "\<dots> = trim (markdownToAnkiHtml render x)"
    by (simp only: stripWrappingP_paragraph)
  also have "\<dots> = markdownToAnkiHtml render x"
    by (simp add: markdownToAnkiHtml_def[of render x] trim_trim)
  finally show ?thesis .
qed

text \<open>The theorem at the renderer's samples and a plain word.\<close>

theorem markdownToAnkiHtml_idem_witness:
  "markdownToAnkiHtml renderSample ''hablar'' = ''hablar'' \<and>
   renderSample (markdownToAnkiHtml renderSample ''hablar'') =
     ''<p>'' @ markdownToAnkiHtml renderSample ''hablar'' @ ''</p>'' @ [CHR 0x0A] \<and>
   markdownToAnkiHtml renderSample (markdownToAnkiHtml renderSample ''hablar'') = ''hablar''"
proof -
  have e: "markdownToAnkiHtml renderSample ''hablar'' = ''hablar''"
    by (simp add: markdownToAnkiHtml_def renderSample_def renderedSamples_def stripWrappingP_def
        trim_def isWhiteSpace_def)
  have h: "renderSample (markdownToAnkiHtml renderSample ''hablar'') =
     ''<p>'' @ markdownToAnkiHtml renderSample ''hablar'' @ ''</p>'' @ [CHR 0x0A]"
    unfolding e by (simp add: renderSample_def renderedSamples_def)
  from markdownToAnkiHtml_idem[OF h] h e show ?thesis by simp
qed

text \<open>
  C6, as stated, fails: the emphasised word converts to the word inside a tag, which
  holds no further markup syntax; converting that again escapes the tag, since raw
  markup in the input is switched off.
\<close>

theorem escaped_tag_counterexample:
  "markdownToAnkiHtml renderSample ''**hablar**'' = ''<strong>hablar</strong>'' \<and>
   markdownToAnkiHtml renderSample (markdownToAnkiHtml renderSample ''**hablar**'') =
     ''&lt;strong&gt;hablar&lt;/strong&gt;'' \<and>
   markdownToAnkiHtml renderSample (markdownToAnkiHtml renderSample ''**hablar**'') \<noteq>
     markdownToAnkiHtml renderSample ''**hablar**''"
proof -
  have e: "markdownToAnkiHtml renderSample ''**hablar**'' = ''<strong>hablar</strong>''"
    by (simp add: markdownToAnkiHtml_def renderSample_def renderedSamples_def stripWrappingP_def
        trim_def isWhiteSpace_def)
  have e': "markdownToAnkiHtml renderSample ''<strong>hablar</strong>'' =
      ''&lt;strong&gt;hablar&lt;/strong&gt;''"
    by (simp add: markdownToAnkiHtml_def renderSample_def renderedSamples_def stripWrappingP_def
        trim_def isWhiteSpace_def)
  show ?thesis unfolding e e' by simp
qed

section \<open>C7: the client's checks on a response\<close>

text \<open>
  C7, as amended. On a parsed response the client throws the peer's message when the
  error field is a non-empty string; otherwise (error null or the empty string) it throws
  when the result is null; otherwise it returns the result. The request is logged in
  every case.
\<close>

theorem invokeAnkiConnect_checks:
  "invokeAnkiConnect req (Parsed \<lparr>result = r, error = e\<rparr>) sent =
     ((case e of
         Some (c # cs) \<Rightarrow> Inl (Error (c # cs))
       | _ \<Rightarrow> (case r of
                None \<Rightarrow> Inl (Error ''AnkiConnect returned null result'')
              | Some v \<Rightarrow> Inr v)),
      sent @ [req])"
  by (simp add: invokeAnkiConnect_def truthy_def split: option.splits list.splits)

text \<open>
  C7, as stated, fails: a response whose error field is the empty string, which is not
  null, and whose result is 5 is accepted and 5 returned.
\<close>

theorem invokeAnkiConnect_empty_error_counterexample:
  "fst (invokeAnkiConnect Version (Parsed \<lparr>result = Some (5::number), error = Some ''''\<rparr>) [])
     = Inr 5"
  by (simp add: invokeAnkiConnect_def truthy_def)


section \<open>C8: one configuration per deck id\<close>

text \<open>
  C8. The empty store has at most one configuration per deck id, and adding and removing
  a configuration, and so any sequence of these, keep it so. Adding drops every
  configuration of the same deck id and appends the new one; removing only drops entries.
\<close>

theorem store_keeps_one_per_deckId:
  "onePerDeckId None \<and>
   (onePerDeckId st \<longrightarrow>
      onePerDeckId (addDeckConfiguration c st) \<and>
      onePerDeckId (removeDeckConfiguration d st) \<and>
      onePerDeckId (foldl applyOp st ops)) \<and>
   getDeckConfigurations (addDeckConfiguration c st) =
     filter (\<lambda>x. deckConfiguration.deckId x \<noteq> deckConfiguration.deckId c) (getDeckConfigurations st) @ [c] \<and>
   getDeckConfigurations (removeDeckConfiguration d st) =
     filter (\<lambda>x. deckConfiguration.deckId x \<noteq> d) (getDeckConfigurations st)"
proof -
  have "onePerDeckId None"
    by (simp add: onePerDeckId_def getDeckConfigurations_def)
  moreover have "getDeckConfigurations (addDeckConfiguration c st) =
     filter (\<lambda>x. deckConfiguration.deckId x \<noteq> deckConfiguration.deckId c) (getDeckConfigurations st) @ [c]"
    by (simp add: addDeckConfiguration_def getDeckConfigurations_def saveDeckConfigurations_def)
  moreover have "getDeckConfigurations (removeDeckConfiguration d st) =
     filter (\<lambda>x. deckConfiguration.deckId x \<noteq> d) (getDeckConfigurations st)"
    by (simp add: removeDeckConfiguration_def getDeckConfigurations_def saveDeckConfigurations_def)
  ultimately show ?thesis
    by (simp add: onePerDeckId_add onePerDeckId_remove onePerDeckId_foldl)
qed

text \<open>
  The theorem at the example store: adding a configuration of the deck id it holds
  replaces the old one, removing that id empties the store.
\<close>

theorem store_keeps_one_per_deckId_witness:
  "onePerDeckId (Some [vocabConfiguration]) \<and>
   onePerDeckId (addDeckConfiguration (vocabConfiguration\<lparr>purpose := ''verbs''\<rparr>) (Some [vocabConfiguration])) \<and>
   getDeckConfigurations (addDeckConfiguration (vocabConfiguration\<lparr>purpose := ''verbs''\<rparr>) (Some [vocabConfiguration])) =
     [vocabConfiguration\<lparr>purpose := ''verbs''\<rparr>] \<and>
   onePerDeckId (removeDeckConfiguration 1 (Some [vocabConfiguration])) \<and>
   getDeckConfigurations (removeDeckConfiguration 1 (Some [vocabConfiguration])) = []"
proof -
  have h: "onePerDeckId (Some [vocabConfiguration])"
    by (simp add: onePerDeckId_def getDeckConfigurations_def)
  from store_keeps_one_per_deckId[of "Some [vocabConfiguration]"
      "vocabConfiguration\<lparr>purpose := ''verbs''\<rparr>" 1 "[]"] h
  show ?thesis
    by (simp add: getDeckConfigurations_def vocabConfiguration_def)
qed

section \<open>C9: the search query\<close>

text \<open>
  C9. The run sends a search exactly when the submission reaches the duplicate check:
  the input passes validation, the peer answers the probe and the deck id has a stored
  configuration. The query is then \<^verbatim>\<open>deck:"\<close>, the name of that configuration's deck,
  \<^verbatim>\<open>" \<close> and the front as submitted, not converted.
\<close>

theorem search_query:
  "FindNotes q \<in> set (snd (tool render input st p)) \<longleftrightarrow>
     0 < toolInput.deckId input \<and> trim (Front input) \<noteq> [] \<and> trim (Back input) \<noteq> [] \<and>
     fst (checkAnkiConnection p []) \<and>
     (case find (\<lambda>c. deckConfiguration.deckId c = toolInput.deckId input) (getDeckConfigurations st) of
        None \<Rightarrow> False
      | Some dc \<Rightarrow> q = ''deck:'' @ [CHR 0x22] @ deckName dc @ [CHR 0x22] @ '' '' @ Front input)"
  (is "?L \<longleftrightarrow> ?R")
proof
  assume ?L
  from FindNotes_sent[OF this] show ?R
    by (auto simp: connected_iff duplicateQuery_def)
next
  assume r: ?R
  then obtain dc where
    "find (\<lambda>c. deckConfiguration.deckId c = toolInput.deckId input) (getDeckConfigurations st) = Some dc"
    "q = duplicateQuery dc input"
    by (auto simp: duplicateQuery_def split: option.splits)
  with r show ?L
    using FindNotes_sent_conv[of input p st dc render] by (simp add: connected_iff)
qed

text \<open>The theorem at the example submission.\<close>

theorem search_query_witness:
  "FindNotes (''deck:'' @ [CHR 0x22] @ ''Spanish::Vocab'' @ [CHR 0x22] @ '' hablar'') \<in> set (snd (tool plainParagraph hablar (Some [vocabConfiguration]) quietPeer))"
proof -
  have "fst (checkAnkiConnection quietPeer [])"
    by (simp add: connected_iff peer_replies)
  then show ?thesis
    using search_query[of "(''deck:'' @ [CHR 0x22] @ ''Spanish::Vocab'' @ [CHR 0x22] @ '' hablar'')" plainParagraph hablar "Some [vocabConfiguration]" quietPeer]
    by (simp add: find_hablar trim_hablar) (simp add: hablar_def vocabConfiguration_def)
qed

section \<open>C10: duplicates found\<close>

text \<open>
  C10, as amended. Whenever the duplicate search was sent and came back with a non-empty
  id list, the detail lookup for these ids came back with the notes \<open>infos\<close> and each of
  these notes carries its fields, the tool answers with the duplicate warning, carrying
  the number of ids and, for each note, its id and its field values, and has sent no
  write.
\<close>

theorem duplicates_reported:
  assumes "searchReturned (snd (tool render input st p)) p ids"
    and "ids \<noteq> []"
    and "receive (notesInfoReply p ids) = Inr infos"
    and "list_all hasFields infos"
  shows "fst (tool render input st p) =
           DuplicatesFound (length ids)
             (map (\<lambda>note. (noteId note, map (\<lambda>(key, v). (key, fieldValue v)) (noteFields note))) infos)
         \<and> filter isWrite (snd (tool render input st p)) = []"
  using tool_warns[OF assms] by simp

text \<open>The theorem at a peer that holds a matching note.\<close>

theorem duplicates_reported_witness:
  "searchReturned (snd (tool plainParagraph hablar (Some [vocabConfiguration]) holdingPeer))
     holdingPeer [17] \<and>
   receive (notesInfoReply holdingPeer [17]) = Inr [hablarNote] \<and>
   list_all hasFields [hablarNote] \<and>
   fst (tool plainParagraph hablar (Some [vocabConfiguration]) holdingPeer) =
     DuplicatesFound 1 [(17, [(''Front'', ''hablar'')])] \<and>
   filter isWrite (snd (tool plainParagraph hablar (Some [vocabConfiguration]) holdingPeer)) = []"
proof -
  have h1: "searchReturned (snd (tool plainParagraph hablar (Some [vocabConfiguration]) holdingPeer))
     holdingPeer [17]"
    by (simp add: run_holding searchReturned_def peer_replies)
  have h2: "[17::number] \<noteq> []" by simp
  have h3: "receive (notesInfoReply holdingPeer [17]) = Inr [hablarNote]"
    by (simp add: peer_replies)
  have h4: "list_all hasFields [hablarNote]"
    by (simp add: hablarNote_def)
  from duplicates_reported[OF h1 h2 h3 h4] h1 h3 h4 show ?thesis
    by (simp add: hablarNote_def)
qed

text \<open>
  C10, as stated, fails: the search returns one id and the detail lookup fails, or the
  lookup answers with a note it could not load, which throws when the note is listed.
  Either way the tool goes on to create the card.
\<close>

theorem details_failed_counterexample:
  "searchReturned (snd (tool plainParagraph hablar (Some [vocabConfiguration]) forgetfulPeer))
     forgetfulPeer [17] \<and>
   tool plainParagraph hablar (Some [vocabConfiguration]) forgetfulPeer =
     (CardCreated ''Spanish::Vocab'' ''Basic'' 1496198395707
        [(''Front'', ''hablar''), (''Back'', ''to speak'')] [],
      [Version, FindNotes (''deck:'' @ [CHR 0x22] @ ''Spanish::Vocab'' @ [CHR 0x22] @ '' hablar''), NotesInfo [17],
       AddNote ''Spanish::Vocab'' ''Basic'' [(''Front'', ''hablar''), (''Back'', ''to speak'')] []
         False]) \<and>
   searchReturned (snd (tool plainParagraph hablar (Some [vocabConfiguration]) stalePeer))
     stalePeer [17] \<and>
   receive (notesInfoReply stalePeer [17]) = Inr [EmptyNote] \<and>
   tool plainParagraph hablar (Some [vocabConfiguration]) stalePeer =
     (CardCreated ''Spanish::Vocab'' ''Basic'' 1496198395707
        [(''Front'', ''hablar''), (''Back'', ''to speak'')] [],
      [Version, FindNotes (''deck:'' @ [CHR 0x22] @ ''Spanish::Vocab'' @ [CHR 0x22] @ '' hablar''), NotesInfo [17],
       AddNote ''Spanish::Vocab'' ''Basic'' [(''Front'', ''hablar''), (''Back'', ''to speak'')] []
         False])"
  by (simp add: run_forgetful run_stale searchReturned_def peer_replies)

end
